theory Spec2Isabelle
  imports Complex_Main "HOL-Library.AList" "HOL-Library.Product_Lexorder"
begin

section \<open>Values, documents and identifiers\<close>

text \<open>
  The store identifier of \<open>bson\<close>: an \<open>ObjectId\<close> holds the bytes it was built from,
  \<open>str\<close> renders them as lower-case hexadecimal, and two identifiers are equal when their
  bytes are.
\<close>

datatype ObjectId = ObjectId (binary: "nat list")

text \<open>
  The Python values a stored record or a JSON response holds. A \<open>dict\<close> keeps its
  insertion order and is an association list; a \<open>float\<close> is the rational it denotes
  (only comparisons are made on it; not-a-number and the infinities are left out).
\<close>

datatype pyval =
    PNone
  | PBool bool
  | PInt int
  | PFloat rat
  | PStr string
  | POid ObjectId
  | PList "pyval list"
  | PDict "(string \<times> pyval) list"

type_synonym doc = "(string \<times> pyval) list"

datatype error =
    KeyError string
  | InvalidId
  | HTTPException int string
  | RequestValidationError

text \<open>
  The status a client sees. \<open>HTTPException\<close> carries its own status; a request whose
  parameters fail the bounds declared with \<open>Query(...)\<close> is answered by FastAPI with
  422 (\<open>main.py\<close> installs no handler that changes it); any other exception that leaves
  a handler is a 500.
\<close>

fun http_status :: "error \<Rightarrow> int" where
  "http_status (HTTPException code detail) = code"
| "http_status RequestValidationError = 422"
| "http_status (KeyError k) = 500"
| "http_status InvalidId = 500"

subsection \<open>Hexadecimal text of an identifier\<close>

definition hex_value :: "char \<Rightarrow> nat option" where
  "hex_value c = map_of
     [(CHR ''0'', 0), (CHR ''1'', 1), (CHR ''2'', 2), (CHR ''3'', 3), (CHR ''4'', 4),
      (CHR ''5'', 5), (CHR ''6'', 6), (CHR ''7'', 7), (CHR ''8'', 8), (CHR ''9'', 9),
      (CHR ''a'', 10), (CHR ''b'', 11), (CHR ''c'', 12), (CHR ''d'', 13), (CHR ''e'', 14),
      (CHR ''f'', 15),
      (CHR ''A'', 10), (CHR ''B'', 11), (CHR ''C'', 12), (CHR ''D'', 13), (CHR ''E'', 14),
      (CHR ''F'', 15)] c"

definition is_space :: "char \<Rightarrow> bool" where
  "is_space c = (c \<in> set [CHR 0x20, CHR 0x09, CHR 0x0A, CHR 0x0B, CHR 0x0C, CHR 0x0D])"

text \<open>
  \<open>bytes.fromhex\<close>: two hexadecimal digits per byte, ASCII whitespace skipped before a
  byte; \<open>None\<close> is the \<open>ValueError\<close>.
\<close>

fun fromhex :: "string \<Rightarrow> nat list option" where
  "fromhex [] = Some []"
| "fromhex (c # cs) =
     (if is_space c then fromhex cs
      else (case cs of
              [] \<Rightarrow> None
            | d # ds \<Rightarrow>
                (case hex_value c of
                   None \<Rightarrow> None
                 | Some hi \<Rightarrow>
                     (case hex_value d of
                        None \<Rightarrow> None
                      | Some lo \<Rightarrow> map_option ((#) (16 * hi + lo)) (fromhex ds)))))"

definition hex_digit :: "nat \<Rightarrow> char" where
  "hex_digit n = ''0123456789abcdef'' ! (n mod 16)"

definition hexlify :: "nat list \<Rightarrow> string" where
  "hexlify bs = concat (map (\<lambda>b. [hex_digit (b div 16), hex_digit b]) bs)"

text \<open>
  \<open>ObjectId(s)\<close> for a string \<open>s\<close>, as \<open>bson\<close> validates it: the length is 24 and
  \<open>bytes.fromhex\<close> accepts it; otherwise \<open>InvalidId\<close> is raised.
\<close>

definition ObjectId_of_str :: "string \<Rightarrow> error + ObjectId" where
  "ObjectId_of_str s =
     (if length s = 24
      then (case fromhex s of None \<Rightarrow> Inl InvalidId | Some bs \<Rightarrow> Inr (ObjectId bs))
      else Inl InvalidId)"

text \<open>
  Python's \<open>str\<close>. On a string it is the identity and on an \<open>ObjectId\<close> the hexadecimal
  text; the rendering of every other kind of value (numbers, lists, nested documents) is
  the parameter \<open>R\<close>.
\<close>

definition py_str :: "(pyval \<Rightarrow> string) \<Rightarrow> pyval \<Rightarrow> string" where
  "py_str R v = (case v of PStr s \<Rightarrow> s | POid oid \<Rightarrow> hexlify (binary oid) | _ \<Rightarrow> R v)"

text \<open>\<open>isinstance(v, ObjectId)\<close>\<close>

fun is_ObjectId :: "pyval \<Rightarrow> bool" where
  "is_ObjectId (POid oid) = True"
| "is_ObjectId v = False"

section \<open>The document serializer\<close>

text \<open>
  \<open>serialize_doc\<close> of \<open>main.py\<close>. A falsy argument (\<open>None\<close> or the empty dict) is
  returned as it is. Otherwise \<open>doc.pop("_id")\<close> removes the key (a \<open>KeyError\<close> when
  it is missing), \<open>doc["id"] = ...\<close> overwrites an entry that is there or appends one,
  and the loop runs over a snapshot of the items, replacing each \<open>ObjectId\<close> value.
\<close>

definition stringify_step :: "(pyval \<Rightarrow> string) \<Rightarrow> string \<times> pyval \<Rightarrow> doc \<Rightarrow> doc" where
  "stringify_step R kv d =
     (if is_ObjectId (snd kv) then AList.update (fst kv) (PStr (py_str R (snd kv))) d else d)"

definition serialize_doc :: "(pyval \<Rightarrow> string) \<Rightarrow> doc option \<Rightarrow> error + doc option" where
  "serialize_doc R doc =
     (case doc of
        None \<Rightarrow> Inr None
      | Some d \<Rightarrow>
          if d = [] then Inr (Some d)
          else (case map_of d ''_id'' of
                  None \<Rightarrow> Inl (KeyError ''_id'')
                | Some v \<Rightarrow>
                    (let d1 = AList.update ''id'' (PStr (py_str R v)) (AList.delete ''_id'' d)
                     in Inr (Some (fold (stringify_step R) d1 d1)))))"

text \<open>
  The list comprehension \<open>[serialize_doc(doc) for doc in cursor]\<close>: the first exception
  ends it.
\<close>

fun serialize_docs :: "(pyval \<Rightarrow> string) \<Rightarrow> doc list \<Rightarrow> error + doc option list" where
  "serialize_docs R [] = Inr []"
| "serialize_docs R (d # ds) =
     (case serialize_doc R (Some d) of
        Inl e \<Rightarrow> Inl e
      | Inr x \<Rightarrow> (case serialize_docs R ds of Inl e \<Rightarrow> Inl e | Inr xs \<Rightarrow> Inr (x # xs)))"

text \<open>What a handler returns is encoded as JSON: \<open>None\<close> is \<open>null\<close>, a dict an object.\<close>

fun json_of :: "doc option \<Rightarrow> pyval" where
  "json_of None = PNone"
| "json_of (Some d) = PDict d"

section \<open>The record store\<close>

text \<open>
  The database handle \<open>db\<close> of \<open>database.py\<close> is either \<open>None\<close> (no store configured) or
  a store of named collections; a collection that was never written is empty. The counter
  is the supply the store draws fresh identifiers from.
\<close>

record database =
  collections :: "(string \<times> doc list) list"
  next_oid :: nat

definition coll :: "database \<Rightarrow> string \<Rightarrow> doc list" where
  "coll d name = (case map_of (collections d) name of None \<Rightarrow> [] | Some ds \<Rightarrow> ds)"

text \<open>Numbers are compared by value, whether stored as \<open>int\<close> or \<open>float\<close>.\<close>

fun num_of :: "pyval \<Rightarrow> rat option" where
  "num_of (PInt i) = Some (of_int i)"
| "num_of (PFloat r) = Some r"
| "num_of v = None"

definition val_eq :: "pyval \<Rightarrow> pyval \<Rightarrow> bool" where
  "val_eq a b =
     (case num_of a of
        Some x \<Rightarrow> (case num_of b of Some y \<Rightarrow> x = y | None \<Rightarrow> False)
      | None \<Rightarrow> (case num_of b of Some y \<Rightarrow> False | None \<Rightarrow> a = b))"

text \<open>
  Modelled from the spec: the matching of a record against a query of the store client
  (\<open>pymongo\<close>, not part of the repository's sources). The spec reads the queries this
  program builds as exact-match filters on a field, a \<open>seats \<ge> value\<close> predicate and a
  \<open>gte\<close>/\<open>lte\<close> range on the price, joined by conjunction; a record without the field
  satisfies none of them.
\<close>

definition op_holds :: "string \<Rightarrow> pyval option \<Rightarrow> pyval \<Rightarrow> bool" where
  "op_holds op fv x =
     (case fv of
        None \<Rightarrow> False
      | Some v \<Rightarrow>
          (case num_of v of
             None \<Rightarrow> False
           | Some a \<Rightarrow>
               (case num_of x of
                  None \<Rightarrow> False
                | Some b \<Rightarrow>
                    if op = ''$gte'' then b \<le> a
                    else if op = ''$lte'' then a \<le> b
                    else False)))"

definition cond_holds :: "pyval option \<Rightarrow> pyval \<Rightarrow> bool" where
  "cond_holds fv cond =
     (case cond of
        PDict ops \<Rightarrow> list_all (\<lambda>(op, x). op_holds op fv x) ops
      | _ \<Rightarrow> (case fv of None \<Rightarrow> False | Some v \<Rightarrow> val_eq v cond))"

definition matches :: "doc \<Rightarrow> doc \<Rightarrow> bool" where
  "matches d query = list_all (\<lambda>(k, cond). cond_holds (map_of d k) cond) query"

text \<open>
  Modelled from the spec: the gateway's \<open>find(collection, predicate) -> sequence of records\<close>,
  \<open>find_one(collection, predicate) -> record|absent\<close> and
  \<open>count(collection, predicate) -> integer\<close>.
\<close>

definition find_docs :: "doc list \<Rightarrow> doc \<Rightarrow> doc list" where
  "find_docs c query = filter (\<lambda>d. matches d query) c"

definition find_one :: "doc list \<Rightarrow> doc \<Rightarrow> doc option" where
  "find_one c query = (case find_docs c query of [] \<Rightarrow> None | d # ds \<Rightarrow> Some d)"

definition count_documents :: "doc list \<Rightarrow> doc \<Rightarrow> nat" where
  "count_documents c query = length (find_docs c query)"

text \<open>
  Modelled from the spec: \<open>cursor.sort(field, direction)\<close> of the store client orders the
  records by one field, ascending for direction 1 and descending for -1. The key follows
  the store's order of kinds (missing or null, numbers, strings, documents, lists,
  identifiers, booleans) and, among numbers, their value; records with equal keys keep
  their order.
\<close>

fun sort_rank :: "pyval option \<Rightarrow> nat \<times> rat" where
  "sort_rank None = (1, 0)"
| "sort_rank (Some PNone) = (1, 0)"
| "sort_rank (Some (PInt i)) = (2, of_int i)"
| "sort_rank (Some (PFloat r)) = (2, r)"
| "sort_rank (Some (PStr s)) = (3, 0)"
| "sort_rank (Some (PDict d)) = (4, 0)"
| "sort_rank (Some (PList xs)) = (5, 0)"
| "sort_rank (Some (POid oid)) = (7, 0)"
| "sort_rank (Some (PBool b)) = (8, 0)"

definition cursor_sort :: "string \<Rightarrow> int \<Rightarrow> doc list \<Rightarrow> doc list" where
  "cursor_sort field direction ds =
     (if direction = 1 then sort_key (\<lambda>d. sort_rank (map_of d field)) ds
      else rev (sort_key (\<lambda>d. sort_rank (map_of d field)) (rev ds)))"

text \<open>
  Modelled from the spec: \<open>cursor.limit(n)\<close>, the result cap. The store client reads 0 as
  no cap and a negative number as its absolute value.
\<close>

definition cursor_limit :: "int \<Rightarrow> doc list \<Rightarrow> doc list" where
  "cursor_limit n ds = (if n = 0 then ds else take (nat \<bar>n\<bar>) ds)"

text \<open>The identifier the store assigns from its supply: the counter as twelve bytes.\<close>

fun be_bytes :: "nat \<Rightarrow> nat \<Rightarrow> nat list" where
  "be_bytes 0 n = []"
| "be_bytes (Suc k) n = be_bytes k (n div 256) @ [n mod 256]"

definition fresh_ObjectId :: "nat \<Rightarrow> ObjectId" where
  "fresh_ObjectId n = ObjectId (be_bytes 12 n)"

text \<open>
  Modelled from the spec: the gateway's \<open>insert(collection, record) -> assigned identifier\<close>.
  The store assigns the record its identifier under \<open>_id\<close> and appends it to the
  collection.
\<close>

definition insert_one :: "string \<Rightarrow> doc \<Rightarrow> database \<Rightarrow> ObjectId \<times> database" where
  "insert_one name data d =
     (let oid = fresh_ObjectId (next_oid d)
      in (oid,
          d\<lparr>collections :=
               AList.update name (coll d name @ [AList.update ''_id'' (POid oid) data])
                 (collections d),
             next_oid := Suc (next_oid d)\<rparr>))"

fun insert_many :: "string \<Rightarrow> doc list \<Rightarrow> database \<Rightarrow> database" where
  "insert_many name [] d = d"
| "insert_many name (x # xs) d = insert_many name xs (snd (insert_one name x d))"

text \<open>
  Modelled from the spec: \<open>create_document\<close> of \<open>database.py\<close> (not among the sources),
  the gateway's insert as the handlers call it: it stores the record and returns the
  assigned identifier as text.
\<close>

definition create_document :: "string \<Rightarrow> doc \<Rightarrow> database \<Rightarrow> string \<times> database" where
  "create_document name data d =
     (case insert_one name data d of (oid, d') \<Rightarrow> (hexlify (binary oid), d'))"

section \<open>Listing cars\<close>

text \<open>The optional filter parameters of \<open>GET /api/cars\<close>, as \<open>CarFilters\<close> names them.\<close>

record CarFilters =
  type :: "string option"
  brand :: "string option"
  transmission :: "string option"
  fuel_type :: "string option"
  seats_gte :: "int option"
  min_price :: "rat option"
  max_price :: "rat option"
  sort_by :: "string option"

text \<open>Python's truth value of an optional string: \<open>None\<close> and \<open>""\<close> are false.\<close>

fun truthy :: "string option \<Rightarrow> bool" where
  "truthy None = False"
| "truthy (Some s) = (s \<noteq> [])"

definition set_str :: "string \<Rightarrow> string option \<Rightarrow> doc \<Rightarrow> doc" where
  "set_str k v query = (if truthy v then AList.update k (PStr (the v)) query else query)"

text \<open>The query \<open>list_cars\<close> builds (lines 128 to 145 of \<open>main.py\<close>).\<close>

definition price_q :: "CarFilters \<Rightarrow> doc" where
  "price_q f =
     (let q0 = [];
          q1 = (case min_price f of None \<Rightarrow> q0 | Some a \<Rightarrow> AList.update ''$gte'' (PFloat a) q0);
          q2 = (case max_price f of None \<Rightarrow> q1 | Some b \<Rightarrow> AList.update ''$lte'' (PFloat b) q1)
      in q2)"

definition cars_query :: "CarFilters \<Rightarrow> doc" where
  "cars_query f =
     (let q0 = [];
          q1 = set_str ''type'' (type f) q0;
          q2 = set_str ''brand'' (brand f) q1;
          q3 = set_str ''transmission'' (transmission f) q2;
          q4 = set_str ''fuel_type'' (fuel_type f) q3;
          q5 = (case seats_gte f of
                  None \<Rightarrow> q4
                | Some n \<Rightarrow> AList.update ''seats'' (PDict [(''$gte'', PInt n)]) q4);
          q6 = (if min_price f \<noteq> None \<or> max_price f \<noteq> None
                then AList.update ''price_per_day'' (PDict (price_q f)) q5 else q5)
      in q6)"

definition sort_map :: "(string \<times> string \<times> int) list" where
  "sort_map =
     [(''price_asc'', (''price_per_day'', 1)),
      (''price_desc'', (''price_per_day'', -1)),
      (''popularity'', (''popularity'', -1)),
      (''newest'', (''created_at'', -1))]"

definition apply_sort :: "string option \<Rightarrow> doc list \<Rightarrow> doc list" where
  "apply_sort s cursor =
     (if truthy s
      then (case map_of sort_map (the s) of
              None \<Rightarrow> cursor
            | Some (field, direction) \<Rightarrow> cursor_sort field direction cursor)
      else cursor)"

text \<open>The three demo records of \<open>seed_demo_cars\<close>; the mocked list adds an \<open>id\<close> to two of them.\<close>

definition tesla :: doc where
  "tesla =
     [(''brand'', PStr ''Tesla''), (''model'', PStr ''Model 3''), (''type'', PStr ''sedan''),
      (''transmission'', PStr ''automatic''), (''fuel_type'', PStr ''electric''),
      (''seats'', PInt 5), (''luggage'', PInt 3), (''mileage'', PInt 12000),
      (''price_per_day'', PInt 89), (''popularity'', PInt 98),
      (''images'', PList [PStr ''https://images.unsplash.com/photo-1511390420183-3a2c5a36f3f1?q=80&w=1200&auto=format&fit=crop'']),
      (''features'', PList [PStr ''Autopilot'', PStr ''Bluetooth'', PStr ''A/C'']),
      (''available'', PBool True),
      (''description'', PStr ''Sleek EV with long range and premium comfort.'')]"

definition bmw :: doc where
  "bmw =
     [(''brand'', PStr ''BMW''), (''model'', PStr ''X5''), (''type'', PStr ''suv''),
      (''transmission'', PStr ''automatic''), (''fuel_type'', PStr ''hybrid''),
      (''seats'', PInt 5), (''luggage'', PInt 4), (''mileage'', PInt 24000),
      (''price_per_day'', PInt 129), (''popularity'', PInt 92),
      (''images'', PList [PStr ''https://images.unsplash.com/photo-1619767886558-efdc259cde1c?q=80&w=1200&auto=format&fit=crop'']),
      (''features'', PList [PStr ''Panoramic Roof'', PStr ''Leather'', PStr ''GPS'']),
      (''available'', PBool True),
      (''description'', PStr ''Luxury SUV perfect for family trips.'')]"

definition corolla :: doc where
  "corolla =
     [(''brand'', PStr ''Toyota''), (''model'', PStr ''Corolla''), (''type'', PStr ''sedan''),
      (''transmission'', PStr ''automatic''), (''fuel_type'', PStr ''petrol''),
      (''seats'', PInt 5), (''luggage'', PInt 3), (''mileage'', PInt 40000),
      (''price_per_day'', PInt 49), (''popularity'', PInt 85),
      (''images'', PList [PStr ''https://images.unsplash.com/photo-1549921296-3c2b3f6b33b5?q=80&w=1200&auto=format&fit=crop'']),
      (''features'', PList [PStr ''Great MPG'', PStr ''A/C'', PStr ''USB'']),
      (''available'', PBool True),
      (''description'', PStr ''Reliable and efficient daily driver.'')]"

definition demo_cars :: "doc list" where
  "demo_cars = [(''id'', PStr ''demo-1'') # tesla, (''id'', PStr ''demo-2'') # bmw]"

text \<open>The slice \<open>xs[:n]\<close>; a negative \<open>n\<close> counts from the end.\<close>

definition slice_to :: "int \<Rightarrow> 'a list \<Rightarrow> 'a list" where
  "slice_to n xs = (if 0 \<le> n then take (nat n) xs else take (nat (int (length xs) + n)) xs)"

definition items_response :: "pyval list \<Rightarrow> pyval" where
  "items_response items = PDict [(''items'', PList items), (''count'', PInt (int (length items)))]"

text \<open>
  The handler \<open>list_cars\<close>, called with parameters that passed validation. Without a
  store it returns the mocked list cut to \<open>limit\<close> and reads no filter.
\<close>

definition list_cars ::
  "(pyval \<Rightarrow> string) \<Rightarrow> database option \<Rightarrow> CarFilters \<Rightarrow> int \<Rightarrow> error + pyval" where
  "list_cars R db f limit =
     (case db of
        None \<Rightarrow> Inr (items_response (map PDict (slice_to limit demo_cars)))
      | Some d \<Rightarrow>
          (let query = cars_query f;
               cursor = find_docs (coll d ''car'') query;
               cursor = apply_sort (sort_by f) cursor;
               cursor = cursor_limit limit cursor
           in (case serialize_docs R cursor of
                 Inl e \<Rightarrow> Inl e
               | Inr items \<Rightarrow> Inr (items_response (map json_of items)))))"

text \<open>
  The bounds the signature declares: \<open>Query(None, ge=1, le=9)\<close> for \<open>seats_gte\<close>,
  \<open>Query(None, ge=0)\<close> for the two prices and \<open>Query(50, ge=1, le=200)\<close> for \<open>limit\<close>.
  FastAPI checks them before it calls the handler.
\<close>

definition valid_filters :: "CarFilters \<Rightarrow> bool" where
  "valid_filters f =
     ((case seats_gte f of None \<Rightarrow> True | Some n \<Rightarrow> 1 \<le> n \<and> n \<le> 9) \<and>
      (case min_price f of None \<Rightarrow> True | Some a \<Rightarrow> 0 \<le> a) \<and>
      (case max_price f of None \<Rightarrow> True | Some b \<Rightarrow> 0 \<le> b))"

definition query_limit :: "int option \<Rightarrow> error + int" where
  "query_limit l =
     (case l of
        None \<Rightarrow> Inr 50
      | Some n \<Rightarrow> if 1 \<le> n \<and> n \<le> 200 then Inr n else Inl RequestValidationError)"

text \<open>\<open>GET /api/cars\<close>: validation of the parameters, then the handler.\<close>

definition get_api_cars ::
  "(pyval \<Rightarrow> string) \<Rightarrow> database option \<Rightarrow> CarFilters \<Rightarrow> int option \<Rightarrow> error + pyval" where
  "get_api_cars R db f l =
     (if valid_filters f
      then (case query_limit l of Inl e \<Rightarrow> Inl e | Inr limit \<Rightarrow> list_cars R db f limit)
      else Inl RequestValidationError)"

section \<open>One car, bookings and the demo data\<close>



record BookingRequest =
  user_id :: string
  car_id :: string
  pickup_location :: string
  dropoff_location :: string
  start_date :: string
  end_date :: string
  total_price :: rat
  notes' :: "string option"

definition model_dump :: "BookingRequest \<Rightarrow> doc" where
  "model_dump p =
     [(''user_id'', PStr (user_id p)), (''car_id'', PStr (car_id p)),
      (''pickup_location'', PStr (pickup_location p)),
      (''dropoff_location'', PStr (dropoff_location p)),
      (''start_date'', PStr (start_date p)), (''end_date'', PStr (end_date p)),
      (''total_price'', PFloat (total_price p)),
      (''notes'', (case notes' p of None \<Rightarrow> PNone | Some s \<Rightarrow> PStr s))]"

text \<open>The dict display \<open>{..., **other}\<close>: the entries of \<open>other\<close> are set in turn.\<close>

definition dict_merge :: "doc \<Rightarrow> doc \<Rightarrow> doc" where
  "dict_merge d other = fold (\<lambda>kv acc. AList.update (fst kv) (snd kv) acc) other d"

text \<open>
  \<open>create_booking\<close> returns its answer and the store it leaves. With a store, the car is
  looked up first; the payload is stored and read back only when one is found.
\<close>

definition create_booking ::
  "(pyval \<Rightarrow> string) \<Rightarrow> database option \<Rightarrow> BookingRequest
     \<Rightarrow> (error + pyval) \<times> database option" where
  "create_booking R db payload =
     (case db of
        None \<Rightarrow>
          (Inr (PDict (dict_merge [(''id'', PStr ''demo-booking-123''), (''status'', PStr ''pending'')]
                         (model_dump payload))),
           None)
      | Some d \<Rightarrow>
          (case ObjectId_of_str (car_id payload) of
             Inl e \<Rightarrow> (Inl (HTTPException 400 ''Invalid car id''), Some d)
           | Inr car_oid \<Rightarrow>
               (case find_one (coll d ''car'') [(''_id'', POid car_oid)] of
                  None \<Rightarrow> (Inl (HTTPException 404 ''Car not found''), Some d)
                | Some car \<Rightarrow>
                    if car = [] then (Inl (HTTPException 404 ''Car not found''), Some d)
                    else (case create_document ''booking'' (model_dump payload) d of
                            (inserted_id, d') \<Rightarrow>
                              (case ObjectId_of_str inserted_id of
                                 Inl e \<Rightarrow> (Inl e, Some d')
                               | Inr oid \<Rightarrow>
                                   (case serialize_doc R
                                           (find_one (coll d' ''booking'') [(''_id'', POid oid)]) of
                                      Inl e \<Rightarrow> (Inl e, Some d')
                                    | Inr x \<Rightarrow> (Inr (json_of x), Some d')))))))"

definition demo_bookings :: "doc list" where
  "demo_bookings =
     [[(''id'', PStr ''demo-book-1''), (''user_id'', PStr ''u1''), (''car_id'', PStr ''demo-1''),
       (''pickup_location'', PStr ''Downtown''), (''dropoff_location'', PStr ''Airport''),
       (''start_date'', PStr ''2025-12-01''), (''end_date'', PStr ''2025-12-05''),
       (''total_price'', PInt 356), (''status'', PStr ''confirmed''),
       (''payment_status'', PStr ''paid'')]]"

definition bookings_query :: "string option \<Rightarrow> doc" where
  "bookings_query uid = set_str ''user_id'' uid []"

definition list_bookings ::
  "(pyval \<Rightarrow> string) \<Rightarrow> database option \<Rightarrow> string option \<Rightarrow> int \<Rightarrow> error + pyval" where
  "list_bookings R db uid limit =
     (case db of
        None \<Rightarrow> Inr (items_response (map PDict (slice_to limit demo_bookings)))
      | Some d \<Rightarrow>
          (let query = bookings_query uid;
               cursor = cursor_limit limit
                          (cursor_sort ''created_at'' (-1) (find_docs (coll d ''booking'') query))
           in (case serialize_docs R cursor of
                 Inl e \<Rightarrow> Inl e
               | Inr items \<Rightarrow> Inr (items_response (map json_of items)))))"

text \<open>\<open>GET /api/bookings\<close>: \<open>limit\<close> is declared with \<open>Query(50, ge=1, le=200)\<close>.\<close>

definition get_api_bookings ::
  "(pyval \<Rightarrow> string) \<Rightarrow> database option \<Rightarrow> string option \<Rightarrow> int option \<Rightarrow> error + pyval" where
  "get_api_bookings R db uid l =
     (case query_limit l of Inl e \<Rightarrow> Inl e | Inr limit \<Rightarrow> list_bookings R db uid limit)"

text \<open>
  \<open>seed_demo_cars\<close> returns its answer and the store it leaves: nothing is written
  without a store or when the car collection holds a record.
\<close>

definition seed_demo_cars :: "database option \<Rightarrow> pyval \<times> database option" where
  "seed_demo_cars db =
     (case db of
        None \<Rightarrow>
          (PDict [(''status'', PStr ''no-db''),
                  (''message'', PStr ''Database not configured in this environment'')],
           None)
      | Some d \<Rightarrow>
          if count_documents (coll d ''car'') [] > 0
          then (PDict [(''status'', PStr ''ok''), (''message'', PStr ''Cars already exist'')], Some d)
          else (let cars = [tesla, bmw, corolla]
                in (PDict [(''status'', PStr ''ok''), (''inserted'', PInt (int (length cars)))],
                    Some (insert_many ''car'' cars d))))"

text \<open>The number of stored car records; no store holds none.\<close>

definition car_count :: "database option \<Rightarrow> nat" where
  "car_count db = (case db of None \<Rightarrow> 0 | Some d \<Rightarrow> length (coll d ''car''))"

section \<open>What the specification asks of the handlers\<close>

text \<open>A value as the serializer leaves it: an identifier as its text, anything else as it was.\<close>

definition stringified :: "(pyval \<Rightarrow> string) \<Rightarrow> pyval \<Rightarrow> pyval" where
  "stringified R v = (if is_ObjectId v then PStr (py_str R v) else v)"

text \<open>The record the serializer returns for a record that has an \<open>_id\<close>.\<close>

definition serialized :: "(pyval \<Rightarrow> string) \<Rightarrow> pyval \<Rightarrow> doc \<Rightarrow> doc" where
  "serialized R v d =
     fold (stringify_step R)
       (AList.update ''id'' (PStr (py_str R v)) (AList.delete ''_id'' d))
       (AList.update ''id'' (PStr (py_str R v)) (AList.delete ''_id'' d))"

text \<open>
  An item satisfies a supplied filter when its field equals the string asked for, or its
  number lies on the asked side of the bound; a filter that is not supplied asks nothing.
\<close>

fun str_ok :: "string \<Rightarrow> string option \<Rightarrow> doc \<Rightarrow> bool" where
  "str_ok k None d = True"
| "str_ok k (Some s) d = (map_of d k = Some (PStr s))"

definition num_field :: "doc \<Rightarrow> string \<Rightarrow> rat option" where
  "num_field d k = (case map_of d k of None \<Rightarrow> None | Some v \<Rightarrow> num_of v)"

fun ge_ok :: "string \<Rightarrow> rat option \<Rightarrow> doc \<Rightarrow> bool" where
  "ge_ok k None d = True"
| "ge_ok k (Some a) d = (case num_field d k of None \<Rightarrow> False | Some x \<Rightarrow> a \<le> x)"

fun le_ok :: "string \<Rightarrow> rat option \<Rightarrow> doc \<Rightarrow> bool" where
  "le_ok k None d = True"
| "le_ok k (Some b) d = (case num_field d k of None \<Rightarrow> False | Some x \<Rightarrow> x \<le> b)"

definition item_satisfies :: "CarFilters \<Rightarrow> doc \<Rightarrow> bool" where
  "item_satisfies f d =
     (str_ok ''type'' (type f) d \<and> str_ok ''brand'' (brand f) d \<and>
      str_ok ''transmission'' (transmission f) d \<and> str_ok ''fuel_type'' (fuel_type f) d \<and>
      ge_ok ''seats'' (map_option of_int (seats_gte f)) d \<and>
      ge_ok ''price_per_day'' (min_price f) d \<and> le_ok ''price_per_day'' (max_price f) d)"

text \<open>The items of a list response, and the property that each of them satisfies the filters.\<close>

definition items_of :: "pyval \<Rightarrow> pyval list" where
  "items_of r =
     (case r of
        PDict d \<Rightarrow> (case map_of d ''items'' of Some (PList xs) \<Rightarrow> xs | _ \<Rightarrow> [])
      | _ \<Rightarrow> [])"

definition count_of :: "pyval \<Rightarrow> int option" where
  "count_of r =
     (case r of
        PDict d \<Rightarrow> (case map_of d ''count'' of Some (PInt n) \<Rightarrow> Some n | _ \<Rightarrow> None)
      | _ \<Rightarrow> None)"

fun item_ok :: "CarFilters \<Rightarrow> pyval \<Rightarrow> bool" where
  "item_ok f (PDict d) = item_satisfies f d"
| "item_ok f v = False"

definition all_items_satisfy :: "CarFilters \<Rightarrow> pyval \<Rightarrow> bool" where
  "all_items_satisfy f r = list_all (item_ok f) (items_of r)"

text \<open>
  The query as the specification words it: the conjunction of the provided filters, one
  entry for each filter that is present and none for an absent one, the price entry
  carrying \<open>gte\<close> for \<open>min_price\<close> and \<open>lte\<close> for \<open>max_price\<close>.
\<close>

fun str_entry :: "string \<Rightarrow> string option \<Rightarrow> doc" where
  "str_entry k None = []"
| "str_entry k (Some s) = [(k, PStr s)]"

fun seats_entry :: "int option \<Rightarrow> doc" where
  "seats_entry None = []"
| "seats_entry (Some n) = [(''seats'', PDict [(''$gte'', PInt n)])]"

fun gte_entry :: "rat option \<Rightarrow> doc" where
  "gte_entry None = []"
| "gte_entry (Some a) = [(''$gte'', PFloat a)]"

fun lte_entry :: "rat option \<Rightarrow> doc" where
  "lte_entry None = []"
| "lte_entry (Some b) = [(''$lte'', PFloat b)]"

definition price_entry :: "rat option \<Rightarrow> rat option \<Rightarrow> doc" where
  "price_entry lo hi =
     (if lo = None \<and> hi = None then []
      else [(''price_per_day'', PDict (gte_entry lo @ lte_entry hi))])"

definition spec_query :: "CarFilters \<Rightarrow> doc" where
  "spec_query f =
     str_entry ''type'' (type f) @ str_entry ''brand'' (brand f) @
     str_entry ''transmission'' (transmission f) @ str_entry ''fuel_type'' (fuel_type f) @
     seats_entry (seats_gte f) @ price_entry (min_price f) (max_price f)"

text \<open>The filters with an empty string read as absent, the way the handler's tests do.\<close>

fun nonempty :: "string option \<Rightarrow> string option" where
  "nonempty None = None"
| "nonempty (Some s) = (if s = [] then None else Some s)"

definition effective :: "CarFilters \<Rightarrow> CarFilters" where
  "effective f =
     f\<lparr>type := nonempty (type f), brand := nonempty (brand f),
       transmission := nonempty (transmission f), fuel_type := nonempty (fuel_type f)\<rparr>"


subsection \<open>Sample inputs\<close>

text \<open>
  A rendering for the values the samples never render (they hold identifiers and strings
  only where \<open>str\<close> is applied), a store with one car, and requests.
\<close>

definition no_render :: "pyval \<Rightarrow> string" where
  "no_render v = []"

definition sample_car :: doc where
  "sample_car =
     [(''_id'', POid (ObjectId [0, 0, 0, 0, 0, 0, 0, 0, 0, 0, 0, 1])),
      (''brand'', PStr ''BMW''), (''type'', PStr ''suv''), (''seats'', PInt 5),
      (''price_per_day'', PInt 129)]"

definition sample_store :: database where
  "sample_store = \<lparr>collections = [(''car'', [sample_car])], next_oid = 2\<rparr>"

definition empty_store :: database where
  "empty_store = \<lparr>collections = [], next_oid = 0\<rparr>"

definition no_filters :: CarFilters where
  "no_filters =
     \<lparr>type = None, brand = None, transmission = None, fuel_type = None, seats_gte = None,
      min_price = None, max_price = None, sort_by = None\<rparr>"

definition sample_booking :: "string \<Rightarrow> BookingRequest" where
  "sample_booking cid =
     \<lparr>user_id = ''u1'', car_id = cid, pickup_location = ''Downtown'',
      dropoff_location = ''Airport'', start_date = ''2025-12-01'', end_date = ''2025-12-05'',
      total_price = 356, notes' = None\<rparr>"

section \<open>Properties of the serializer\<close>

lemma map_of_stringify_step:
  "map_of (stringify_step R (k, v) acc) k' =
     (if k' = k \<and> is_ObjectId v then Some (PStr (py_str R v)) else map_of acc k')"
  by (simp add: stringify_step_def update_conv')

lemma map_of_fold_stringify:
  "distinct (map fst xs) \<Longrightarrow>
   map_of (fold (stringify_step R) xs acc) k =
     (case map_of xs k of
        None \<Rightarrow> map_of acc k
      | Some v \<Rightarrow> if is_ObjectId v then Some (PStr (py_str R v)) else map_of acc k)"
proof (induction xs arbitrary: acc)
  case Nil
  then show ?case by simp
next
  case (Cons x xs)
  obtain k' v' where x: "x = (k', v')" by (cases x)
  from Cons.prems have dist: "distinct (map fst xs)" and fresh: "k' \<notin> fst ` set xs"
    by (simp_all add: x)
  from fresh have none: "map_of xs k' = None"
    by (simp add: map_of_eq_None_iff)
  show ?case
    using Cons.IH [OF dist, of "stringify_step R (k', v') acc"] none
    by (auto simp: x map_of_stringify_step split: option.splits)
qed

lemma keys_stringify_step:
  "fst kv \<in> fst ` set acc \<Longrightarrow> fst ` set (stringify_step R kv acc) = fst ` set acc"
  by (auto simp: stringify_step_def dom_update)

lemma keys_fold_stringify:
  "fst ` set xs \<subseteq> fst ` set acc \<Longrightarrow>
   fst ` set (fold (stringify_step R) xs acc) = fst ` set acc"
proof (induction xs arbitrary: acc)
  case Nil
  then show ?case by simp
next
  case (Cons x xs)
  then have "fst x \<in> fst ` set acc" by simp
  then have k: "fst ` set (stringify_step R x acc) = fst ` set acc"
    by (rule keys_stringify_step)
  with Cons.prems have "fst ` set xs \<subseteq> fst ` set (stringify_step R x acc)" by simp
  from Cons.IH [OF this] k show ?case by simp
qed

lemma serialize_doc_Some:
  assumes "map_of d ''_id'' = Some v"
  shows "serialize_doc R (Some d) = Inr (Some (serialized R v d))"
proof -
  from assms have "d \<noteq> []" by auto
  with assms show ?thesis by (simp add: serialize_doc_def serialized_def Let_def)
qed

lemma serialize_doc_cases:
  "serialize_doc R x = Inr y \<Longrightarrow>
     (x = None \<and> y = None) \<or> (x = Some [] \<and> y = Some []) \<or>
     (\<exists>d v. x = Some d \<and> map_of d ''_id'' = Some v \<and> y = Some (serialized R v d))"
  by (auto simp: serialize_doc_def serialized_def Let_def split: option.splits if_splits)

lemma serialized_keys:
  "fst ` set (serialized R v d) = insert ''id'' (fst ` set d - {''_id''})"
proof -
  have "fst ` set (AList.delete ''_id'' d) = fst ` set d - {''_id''}"
    by (induction d) auto
  then show ?thesis
    by (simp add: serialized_def keys_fold_stringify dom_update)
qed

lemma map_of_serialized:
  assumes "distinct (map fst d)"
  shows "map_of (serialized R v d) k =
           (if k = ''id'' then Some (PStr (py_str R v))
            else if k = ''_id'' then None
            else map_option (stringified R) (map_of d k))"
proof -
  let ?d1 = "AList.update ''id'' (PStr (py_str R v)) (AList.delete ''_id'' d)"
  have dist: "distinct (map fst ?d1)"
    using assms by (simp add: distinct_update distinct_delete)
  have look: "map_of ?d1 k = (if k = ''id'' then Some (PStr (py_str R v))
                              else if k = ''_id'' then None else map_of d k)"
    by (simp add: update_conv' delete_conv')
  have out: "map_of (fold (stringify_step R) ?d1 ?d1) k = map_option (stringified R) (map_of ?d1 k)"
  proof (cases "map_of ?d1 k")
    case None
    with map_of_fold_stringify [OF dist, of R ?d1 k] show ?thesis by simp
  next
    case (Some x)
    with map_of_fold_stringify [OF dist, of R ?d1 k] show ?thesis
      by (simp add: stringified_def)
  qed
  have "map_of (serialized R v d) k = map_option (stringified R) (map_of ?d1 k)"
    using out by (simp add: serialized_def)
  also have "\<dots> = (if k = ''id'' then Some (PStr (py_str R v))
                   else if k = ''_id'' then None
                   else map_option (stringified R) (map_of d k))"
    by (simp add: look stringified_def)
  finally show ?thesis .
qed

lemma serialize_doc_no_id:
  assumes "''_id'' \<notin> fst ` set out" and "out \<noteq> []"
  shows "serialize_doc R (Some out) = Inl (KeyError ''_id'')"
proof -
  from assms(1) have "map_of out ''_id'' = None"
    by (simp add: map_of_eq_None_iff)
  with assms(2) show ?thesis
    by (simp add: serialize_doc_def)
qed

lemma keys_insert_nonempty:
  assumes "fst ` set out = insert k A"
  shows "out \<noteq> []"
proof
  assume "out = []"
  with assms show False by simp
qed

text \<open>
  Claim C2, as amended. For a record with an \<open>_id\<close> field (no key twice, as in any dict)
  the serializer succeeds; in its output \<open>id\<close> holds the text of the \<open>_id\<close> value and
  \<open>_id\<close> is gone; every field other than \<open>_id\<close> and \<open>id\<close> is there under its own key,
  as text when its value is an \<open>ObjectId\<close> and unchanged otherwise, and no other key
  appears. A field \<open>id\<close> of the input is overwritten. \<open>None\<close> and the empty record come
  back as they are.
\<close>

theorem serialize_doc_contract:
  assumes "distinct (map fst d)" and "map_of d ''_id'' = Some v"
  shows "\<exists>out. serialize_doc R (Some d) = Inr (Some out) \<and>
           map_of out ''id'' = Some (PStr (py_str R v)) \<and>
           map_of out ''_id'' = None \<and>
           (\<forall>k. k \<noteq> ''_id'' \<and> k \<noteq> ''id'' \<longrightarrow>
                  map_of out k = map_option (stringified R) (map_of d k)) \<and>
           serialize_doc R None = Inr None \<and> serialize_doc R (Some []) = Inr (Some [])"
proof -
  have "serialize_doc R (Some d) = Inr (Some (serialized R v d))"
    using assms(2) by (rule serialize_doc_Some)
  moreover have "map_of (serialized R v d) ''id'' = Some (PStr (py_str R v))"
    by (simp add: map_of_serialized [OF assms(1)])
  moreover have "map_of (serialized R v d) ''_id'' = None"
    by (simp add: map_of_serialized [OF assms(1)])
  moreover have "\<forall>k. k \<noteq> ''_id'' \<and> k \<noteq> ''id'' \<longrightarrow>
                  map_of (serialized R v d) k = map_option (stringified R) (map_of d k)"
    by (simp add: map_of_serialized [OF assms(1)])
  moreover have "serialize_doc R None = Inr None" "serialize_doc R (Some []) = Inr (Some [])"
    by (simp_all add: serialize_doc_def)
  ultimately show ?thesis by blast
qed

theorem serialize_doc_contract_witness:
  "distinct (map fst sample_car) \<and>
   map_of sample_car ''_id'' = Some (POid (ObjectId [0, 0, 0, 0, 0, 0, 0, 0, 0, 0, 0, 1])) \<and>
   (\<exists>out. serialize_doc no_render (Some sample_car) = Inr (Some out) \<and>
      map_of out ''id'' = Some (PStr ''000000000000000000000001'') \<and>
      map_of out ''_id'' = None \<and>
      map_of out ''brand'' = Some (PStr ''BMW''))"
proof -
  have d: "distinct (map fst sample_car)"
    by (simp add: sample_car_def)
  have i: "map_of sample_car ''_id'' = Some (POid (ObjectId [0, 0, 0, 0, 0, 0, 0, 0, 0, 0, 0, 1]))"
    by (simp add: sample_car_def)
  have s: "py_str no_render (POid (ObjectId [0, 0, 0, 0, 0, 0, 0, 0, 0, 0, 0, 1]))
             = ''000000000000000000000001''"
    by (simp add: py_str_def hexlify_def hex_digit_def)
  have b: "map_option (stringified no_render) (map_of sample_car ''brand'') = Some (PStr ''BMW'')"
    by (simp add: sample_car_def stringified_def)
  from serialize_doc_contract [OF d i, of no_render] obtain out where
    "serialize_doc no_render (Some sample_car) = Inr (Some out)"
    "map_of out ''id'' = Some (PStr (py_str no_render (POid (ObjectId [0, 0, 0, 0, 0, 0, 0, 0, 0, 0, 0, 1]))))"
    "map_of out ''_id'' = None"
    "\<forall>k. k \<noteq> ''_id'' \<and> k \<noteq> ''id'' \<longrightarrow>
        map_of out k = map_option (stringified no_render) (map_of sample_car k)"
    by blast
  then have "serialize_doc no_render (Some sample_car) = Inr (Some out) \<and>
      map_of out ''id'' = Some (PStr ''000000000000000000000001'') \<and>
      map_of out ''_id'' = None \<and>
      map_of out ''brand'' = Some (PStr ''BMW'')"
    using s b by simp
  with d i show ?thesis by blast
qed

text \<open>
  Claim C2 as stated fails where the record has a field \<open>id\<close> of its own: the field does
  not pass through unchanged, the text of \<open>_id\<close> takes its place.
\<close>

theorem serialize_doc_overwrites_id:
  "serialize_doc no_render
     (Some [(''_id'', POid (ObjectId [0, 0, 0, 0, 0, 0, 0, 0, 0, 0, 0, 1])), (''id'', PInt 7)])
   = Inr (Some [(''id'', PStr ''000000000000000000000001'')])"
  by (simp add: serialize_doc_def stringify_step_def py_str_def hexlify_def hex_digit_def)

text \<open>
  Claim C3, as amended. On \<open>None\<close> and on the empty record the serializer is idempotent:
  it returns them as they are. On every non-empty record on which it succeeds, its output
  is a non-empty record without \<open>_id\<close>, and applying the serializer to that output raises
  \<open>KeyError\<close>.
\<close>

theorem serialize_doc_again:
  assumes "d \<noteq> []" and "serialize_doc R (Some d) = Inr y"
  shows "serialize_doc R y = Inl (KeyError ''_id'') \<and>
         (\<exists>out. y = Some out \<and> out \<noteq> [] \<and> map_of out ''_id'' = None) \<and>
         serialize_doc R None = Inr None \<and>
         serialize_doc R (Some []) = Inr (Some [])"
proof -
  from serialize_doc_cases [OF assms(2)] assms(1)
  obtain d' v where y: "y = Some (serialized R v d')"
    by auto
  have keys: "fst ` set (serialized R v d') = insert ''id'' (fst ` set d' - {''_id''})"
    by (rule serialized_keys)
  then have no_id: "''_id'' \<notin> fst ` set (serialized R v d')" by simp
  have ne: "serialized R v d' \<noteq> []" using keys by (rule keys_insert_nonempty)
  have raises: "serialize_doc R (Some (serialized R v d')) = Inl (KeyError ''_id'')"
    using no_id ne by (rule serialize_doc_no_id)
  from no_id have gone: "map_of (serialized R v d') ''_id'' = None"
    by (simp add: map_of_eq_None_iff)
  have "serialize_doc R None = Inr None" "serialize_doc R (Some []) = Inr (Some [])"
    by (simp_all add: serialize_doc_def)
  with y raises ne gone show ?thesis by simp
qed

theorem serialize_doc_again_witness:
  "sample_car \<noteq> [] \<and>
   serialize_doc no_render (Some sample_car)
     = Inr (Some [(''brand'', PStr ''BMW''), (''type'', PStr ''suv''), (''seats'', PInt 5),
                  (''price_per_day'', PInt 129), (''id'', PStr ''000000000000000000000001'')]) \<and>
   serialize_doc no_render
       (Some [(''brand'', PStr ''BMW''), (''type'', PStr ''suv''), (''seats'', PInt 5),
              (''price_per_day'', PInt 129), (''id'', PStr ''000000000000000000000001'')])
     = Inl (KeyError ''_id'')"
proof -
  have n: "sample_car \<noteq> []"
    by (simp add: sample_car_def)
  have s: "serialize_doc no_render (Some sample_car)
     = Inr (Some [(''brand'', PStr ''BMW''), (''type'', PStr ''suv''), (''seats'', PInt 5),
                  (''price_per_day'', PInt 129), (''id'', PStr ''000000000000000000000001'')])"
    by (simp add: sample_car_def serialize_doc_def stringify_step_def py_str_def hexlify_def
          hex_digit_def)
  from serialize_doc_again [OF n s] n s show ?thesis by simp
qed

text \<open>
  Claim C3 as stated fails on every record the serializer changes: the second
  application is not safe.
\<close>

theorem serialize_doc_twice_raises:
  "serialize_doc no_render
     (Some [(''_id'', POid (ObjectId [0, 0, 0, 0, 0, 0, 0, 0, 0, 0, 0, 1])), (''brand'', PStr ''BMW'')])
   = Inr (Some [(''brand'', PStr ''BMW''), (''id'', PStr ''000000000000000000000001'')]) \<and>
   serialize_doc no_render
     (Some [(''brand'', PStr ''BMW''), (''id'', PStr ''000000000000000000000001'')])
   = Inl (KeyError ''_id'')"
  by (simp add: serialize_doc_def stringify_step_def py_str_def hexlify_def hex_digit_def)

section \<open>Properties of the query builder\<close>

lemma update_fresh: "k \<notin> fst ` set q \<Longrightarrow> AList.update k v q = q @ [(k, v)]"
  by (induction q) auto

lemma set_str_fresh: "k \<notin> fst ` set q \<Longrightarrow> set_str k s q = q @ str_entry k (nonempty s)"
  by (cases s) (simp_all add: set_str_def update_fresh)

lemma keys_str_entry: "(x, v) \<in> set (str_entry k s) \<Longrightarrow> x = k"
  by (cases s) simp_all

lemma keys_seats_entry: "(x, v) \<in> set (seats_entry n) \<Longrightarrow> x = ''seats''"
  by (cases n) simp_all

lemma price_q_entries: "price_q f = gte_entry (min_price f) @ lte_entry (max_price f)"
  by (cases "min_price f"; cases "max_price f") (simp_all add: price_q_def)

lemma cars_query_closed_form: "cars_query f = spec_query (effective f)"
proof -
  define e1 where "e1 = str_entry ''type'' (nonempty (type f))"
  define e2 where "e2 = str_entry ''brand'' (nonempty (brand f))"
  define e3 where "e3 = str_entry ''transmission'' (nonempty (transmission f))"
  define e4 where "e4 = str_entry ''fuel_type'' (nonempty (fuel_type f))"
  define e5 where "e5 = seats_entry (seats_gte f)"
  have q1: "set_str ''type'' (type f) [] = e1"
    by (simp add: set_str_fresh e1_def)
  have "''brand'' \<notin> fst ` set e1"
    unfolding e1_def by (auto dest: keys_str_entry)
  then have q2: "set_str ''brand'' (brand f) e1 = e1 @ e2"
    by (simp add: set_str_fresh e2_def)
  have "''transmission'' \<notin> fst ` set (e1 @ e2)"
    unfolding e1_def e2_def by (auto dest: keys_str_entry)
  then have q3: "set_str ''transmission'' (transmission f) (e1 @ e2) = e1 @ e2 @ e3"
    by (simp add: set_str_fresh e3_def)
  have "''fuel_type'' \<notin> fst ` set (e1 @ e2 @ e3)"
    unfolding e1_def e2_def e3_def by (auto dest: keys_str_entry)
  then have q4: "set_str ''fuel_type'' (fuel_type f) (e1 @ e2 @ e3) = e1 @ e2 @ e3 @ e4"
    by (simp add: set_str_fresh e4_def)
  have f5: "''seats'' \<notin> fst ` set (e1 @ e2 @ e3 @ e4)"
    unfolding e1_def e2_def e3_def e4_def by (auto dest: keys_str_entry)
  have q5: "(case seats_gte f of
               None \<Rightarrow> e1 @ e2 @ e3 @ e4
             | Some n \<Rightarrow> AList.update ''seats'' (PDict [(''$gte'', PInt n)]) (e1 @ e2 @ e3 @ e4))
            = e1 @ e2 @ e3 @ e4 @ e5"
    using f5 by (cases "seats_gte f") (simp_all add: e5_def update_fresh)
  have f6: "''price_per_day'' \<notin> fst ` set (e1 @ e2 @ e3 @ e4 @ e5)"
    unfolding e1_def e2_def e3_def e4_def e5_def
    by (auto dest: keys_str_entry keys_seats_entry)
  have q6: "(if min_price f \<noteq> None \<or> max_price f \<noteq> None
             then AList.update ''price_per_day'' (PDict (price_q f)) (e1 @ e2 @ e3 @ e4 @ e5)
             else e1 @ e2 @ e3 @ e4 @ e5)
            = e1 @ e2 @ e3 @ e4 @ e5 @ price_entry (min_price f) (max_price f)"
    using f6 by (simp add: price_entry_def update_fresh price_q_entries)
  have "cars_query f = e1 @ e2 @ e3 @ e4 @ e5 @ price_entry (min_price f) (max_price f)"
    unfolding cars_query_def Let_def q1 q2 q3 q4 q5 q6 ..
  also have "\<dots> = spec_query (effective f)"
    by (simp add: spec_query_def effective_def e1_def e2_def e3_def e4_def e5_def)
  finally show ?thesis .
qed

lemma val_eq_PStr: "val_eq v (PStr t) = (v = PStr t)"
  by (cases v) (simp_all add: val_eq_def)

lemma matches_append: "matches d (a @ b) = (matches d a \<and> matches d b)"
  by (simp add: matches_def)

lemma matches_str_entry: "matches d (str_entry k s) = str_ok k s d"
  by (cases s; cases "map_of d k") (simp_all add: matches_def cond_holds_def val_eq_PStr)

lemma matches_seats_entry:
  "matches d (seats_entry n) = ge_ok ''seats'' (map_option of_int n) d"
  by (cases n; cases "map_of d ''seats''")
     (simp_all add: matches_def cond_holds_def op_holds_def num_field_def split: option.splits)

lemma matches_price_entry:
  "matches d (price_entry lo hi) = (ge_ok ''price_per_day'' lo d \<and> le_ok ''price_per_day'' hi d)"
  by (cases lo; cases hi; cases "map_of d ''price_per_day''")
     (auto simp: price_entry_def matches_def cond_holds_def op_holds_def num_field_def
           split: option.splits)

lemma matches_spec_query: "matches d (spec_query g) = item_satisfies g d"
  by (simp add: spec_query_def item_satisfies_def matches_append matches_str_entry
        matches_seats_entry matches_price_entry)

lemma map_of_str_entry_other: "k' \<noteq> k \<Longrightarrow> map_of (str_entry k s) k' = None"
  by (cases s) simp_all

lemma map_of_spec_query_price:
  "map_of (spec_query g) ''price_per_day'' =
     (if min_price g = None \<and> max_price g = None then None
      else Some (PDict (gte_entry (min_price g) @ lte_entry (max_price g))))"
  by (cases "seats_gte g")
     (simp_all add: spec_query_def map_add_def map_of_str_entry_other price_entry_def)

text \<open>
  Claim C4, as amended. The query \<open>list_cars\<close> builds is the conjunction of the filters
  that are provided, where a string filter given as the empty string counts as absent: it
  has one entry for each such filter and none for an absent one, a record matches it
  exactly when it satisfies each of them, and its \<open>price_per_day\<close> entry carries \<open>$gte\<close>
  when \<open>min_price\<close> is present and \<open>$lte\<close> when \<open>max_price\<close> is present and is not there
  when both are absent.
\<close>

theorem cars_query_is_conjunction:
  "cars_query f = spec_query (effective f) \<and>
   matches d (cars_query f) = item_satisfies (effective f) d \<and>
   map_of (cars_query f) ''price_per_day'' =
     (if min_price f = None \<and> max_price f = None then None
      else Some (PDict (gte_entry (min_price f) @ lte_entry (max_price f))))"
proof -
  have "min_price (effective f) = min_price f" "max_price (effective f) = max_price f"
    by (simp_all add: effective_def)
  then show ?thesis
    by (simp add: cars_query_closed_form matches_spec_query map_of_spec_query_price)
qed

theorem cars_query_is_conjunction_witness:
  "cars_query (no_filters\<lparr>type := Some ''suv'', min_price := Some 100\<rparr>)
     = [(''type'', PStr ''suv''), (''price_per_day'', PDict [(''$gte'', PFloat 100)])] \<and>
   matches sample_car (cars_query (no_filters\<lparr>type := Some ''suv'', min_price := Some 100\<rparr>)) \<and>
   map_of (cars_query (no_filters\<lparr>type := Some ''suv'', min_price := Some 100\<rparr>)) ''price_per_day''
     = Some (PDict [(''$gte'', PFloat 100)])"
  using cars_query_is_conjunction
          [of "no_filters\<lparr>type := Some ''suv'', min_price := Some 100\<rparr>" sample_car]
  by (simp add: no_filters_def effective_def spec_query_def price_entry_def item_satisfies_def
        num_field_def sample_car_def matches_def cond_holds_def op_holds_def val_eq_def)

text \<open>
  Claim C4 as stated fails for a string filter provided as the empty string: the
  conjunction of the provided filters has the entry \<open>type = ""\<close>, the query built has none.
\<close>

theorem cars_query_drops_empty_string:
  "cars_query (no_filters\<lparr>type := Some []\<rparr>) = [] \<and>
   spec_query (no_filters\<lparr>type := Some []\<rparr>) = [(''type'', PStr [])]"
  by (simp add: cars_query_def set_str_def spec_query_def no_filters_def price_entry_def)

text \<open>
  Claim C10. An empty string for \<open>type\<close>, \<open>brand\<close>, \<open>transmission\<close> or \<open>fuel_type\<close> of
  \<open>GET /api/cars\<close>, or for \<open>user_id\<close> of \<open>GET /api/bookings\<close>, is answered as the absent
  parameter is, whatever the store and the other parameters are, and the query built has
  no entry for that field.
\<close>

theorem empty_string_is_absent:
  "get_api_cars R db (f\<lparr>type := Some []\<rparr>) l = get_api_cars R db (f\<lparr>type := None\<rparr>) l \<and>
   get_api_cars R db (f\<lparr>brand := Some []\<rparr>) l = get_api_cars R db (f\<lparr>brand := None\<rparr>) l \<and>
   get_api_cars R db (f\<lparr>transmission := Some []\<rparr>) l
     = get_api_cars R db (f\<lparr>transmission := None\<rparr>) l \<and>
   get_api_cars R db (f\<lparr>fuel_type := Some []\<rparr>) l
     = get_api_cars R db (f\<lparr>fuel_type := None\<rparr>) l \<and>
   get_api_bookings R db (Some []) l = get_api_bookings R db None l \<and>
   map_of (cars_query (f\<lparr>type := Some []\<rparr>)) ''type'' = None \<and>
   map_of (cars_query (f\<lparr>brand := Some []\<rparr>)) ''brand'' = None \<and>
   map_of (cars_query (f\<lparr>transmission := Some []\<rparr>)) ''transmission'' = None \<and>
   map_of (cars_query (f\<lparr>fuel_type := Some []\<rparr>)) ''fuel_type'' = None \<and>
   bookings_query (Some []) = []"
proof -
  have q: "cars_query (f\<lparr>type := Some []\<rparr>) = cars_query (f\<lparr>type := None\<rparr>)"
          "cars_query (f\<lparr>brand := Some []\<rparr>) = cars_query (f\<lparr>brand := None\<rparr>)"
          "cars_query (f\<lparr>transmission := Some []\<rparr>) = cars_query (f\<lparr>transmission := None\<rparr>)"
          "cars_query (f\<lparr>fuel_type := Some []\<rparr>) = cars_query (f\<lparr>fuel_type := None\<rparr>)"
    by (simp_all add: cars_query_closed_form effective_def)
  have h: "list_cars R db (f\<lparr>type := Some []\<rparr>) n = list_cars R db (f\<lparr>type := None\<rparr>) n"
          "list_cars R db (f\<lparr>brand := Some []\<rparr>) n = list_cars R db (f\<lparr>brand := None\<rparr>) n"
          "list_cars R db (f\<lparr>transmission := Some []\<rparr>) n
             = list_cars R db (f\<lparr>transmission := None\<rparr>) n"
          "list_cars R db (f\<lparr>fuel_type := Some []\<rparr>) n
             = list_cars R db (f\<lparr>fuel_type := None\<rparr>) n" for n
    by (cases db; simp add: list_cars_def Let_def q)+
  have g: "get_api_cars R db (f\<lparr>type := Some []\<rparr>) l = get_api_cars R db (f\<lparr>type := None\<rparr>) l"
          "get_api_cars R db (f\<lparr>brand := Some []\<rparr>) l = get_api_cars R db (f\<lparr>brand := None\<rparr>) l"
          "get_api_cars R db (f\<lparr>transmission := Some []\<rparr>) l
             = get_api_cars R db (f\<lparr>transmission := None\<rparr>) l"
          "get_api_cars R db (f\<lparr>fuel_type := Some []\<rparr>) l
             = get_api_cars R db (f\<lparr>fuel_type := None\<rparr>) l"
    by (cases "query_limit l"; simp add: get_api_cars_def valid_filters_def h)+
  have bq: "bookings_query (Some []) = bookings_query None" "bookings_query (Some []) = []"
    by (simp_all add: bookings_query_def set_str_def)
  have "list_bookings R db (Some []) n = list_bookings R db None n" for n
    by (cases db; simp add: list_bookings_def Let_def bq(1))
  then have "get_api_bookings R db (Some []) l = get_api_bookings R db None l"
    by (cases "query_limit l") (simp_all add: get_api_bookings_def)
  with bq(2) have b: "get_api_bookings R db (Some []) l = get_api_bookings R db None l"
          "bookings_query (Some []) = []"
    by simp_all
  have k: "map_of (cars_query (f\<lparr>type := Some []\<rparr>)) ''type'' = None"
          "map_of (cars_query (f\<lparr>brand := Some []\<rparr>)) ''brand'' = None"
          "map_of (cars_query (f\<lparr>transmission := Some []\<rparr>)) ''transmission'' = None"
          "map_of (cars_query (f\<lparr>fuel_type := Some []\<rparr>)) ''fuel_type'' = None"
    by (auto simp: cars_query_closed_form effective_def spec_query_def map_of_eq_None_iff
          price_entry_def dest: keys_str_entry keys_seats_entry)
  from g b k show ?thesis by simp
qed

lemmas run_defs =
  get_api_cars_def valid_filters_def query_limit_def list_cars_def cars_query_def set_str_def
  price_q_def find_docs_def find_one_def matches_def cond_holds_def op_holds_def val_eq_def
  coll_def apply_sort_def cursor_limit_def serialize_doc_def stringify_step_def py_str_def
  hexlify_def hex_digit_def items_response_def items_of_def all_items_satisfy_def
  item_satisfies_def num_field_def slice_to_def Let_def

theorem empty_string_is_absent_witness:
  "get_api_cars no_render (Some sample_store) (no_filters\<lparr>type := Some []\<rparr>) None
     = Inr (items_response
              [PDict [(''brand'', PStr ''BMW''), (''type'', PStr ''suv''), (''seats'', PInt 5),
                      (''price_per_day'', PInt 129),
                      (''id'', PStr ''000000000000000000000001'')]])"
proof -
  have "get_api_cars no_render (Some sample_store) (no_filters\<lparr>type := None\<rparr>) None
     = Inr (items_response
              [PDict [(''brand'', PStr ''BMW''), (''type'', PStr ''suv''), (''seats'', PInt 5),
                      (''price_per_day'', PInt 129),
                      (''id'', PStr ''000000000000000000000001'')]])"
    by (simp add: run_defs sample_store_def sample_car_def no_filters_def)
  with empty_string_is_absent [of no_render "Some sample_store" no_filters None]
  show ?thesis by simp
qed

section \<open>Properties of the car listing\<close>

lemma serialize_docs_all2:
  "serialize_docs R ds = Inr xs \<Longrightarrow>
   list_all2 (\<lambda>d x. serialize_doc R (Some d) = Inr x) ds xs"
proof (induction ds arbitrary: xs)
  case Nil
  then show ?case by simp
next
  case (Cons d ds)
  from Cons.prems obtain x ys where
    x: "serialize_doc R (Some d) = Inr x" and ys: "serialize_docs R ds = Inr ys"
    and xs: "xs = x # ys"
    by (auto split: sum.splits)
  from Cons.IH [OF ys] x xs show ?case by simp
qed

lemma serialize_docs_length: "serialize_docs R ds = Inr xs \<Longrightarrow> length xs = length ds"
  by (drule serialize_docs_all2) (simp add: list_all2_lengthD)


lemma length_cursor_limit: "1 \<le> n \<Longrightarrow> int (length (cursor_limit n ds)) \<le> n"
  by (simp add: cursor_limit_def)



lemma length_slice_to: "1 \<le> n \<Longrightarrow> int (length (slice_to n xs)) \<le> n"
  by (simp add: slice_to_def)

lemma items_of_response: "items_of (items_response xs) = xs"
  by (simp add: items_of_def items_response_def)

lemma count_of_response: "count_of (items_response xs) = Some (int (length xs))"
  by (simp add: count_of_def items_response_def)










lemma list_cars_store:
  "list_cars R (Some d) f limit =
     (case serialize_docs R
             (cursor_limit limit (apply_sort (sort_by f) (find_docs (coll d ''car'') (cars_query f)))) of
        Inl e \<Rightarrow> Inl e
      | Inr items \<Rightarrow> Inr (items_response (map json_of items)))"
  by (simp add: list_cars_def Let_def)

lemma get_api_cars_Inr:
  assumes "get_api_cars R db f l = Inr r"
  obtains limit where "query_limit l = Inr limit" and "list_cars R db f limit = Inr r"
    and "valid_filters f"
  using assms by (auto simp: get_api_cars_def split: if_splits sum.splits)

lemma query_limit_Inr:
  "query_limit l = Inr limit \<Longrightarrow> 1 \<le> limit \<and> limit \<le> (case l of None \<Rightarrow> 50 | Some n \<Rightarrow> n)"
  by (auto simp: query_limit_def split: option.splits if_splits)




text \<open>
  Claim C5, as amended. Whenever \<open>GET /api/cars\<close> answers with a list, \<open>count\<close> is the
  number of items and does not exceed the requested \<open>limit\<close> (50 when none is given); a
  request whose \<open>limit\<close> is outside 1 to 200 is rejected by the validation of the
  parameters, with status 422.
\<close>

theorem limit_bounds:
  "(get_api_cars R db f l = Inr r \<longrightarrow>
      count_of r = Some (int (length (items_of r))) \<and>
      int (length (items_of r)) \<le> (case l of None \<Rightarrow> 50 | Some n \<Rightarrow> n)) \<and>
   (l = Some n \<and> (n < 1 \<or> 200 < n) \<longrightarrow>
      (\<exists>e. get_api_cars R db f l = Inl e \<and> http_status e = 422))"
proof (intro conjI impI)
  assume "l = Some n \<and> (n < 1 \<or> 200 < n)"
  then have "get_api_cars R db f l = Inl RequestValidationError"
    by (auto simp: get_api_cars_def query_limit_def)
  then show "\<exists>e. get_api_cars R db f l = Inl e \<and> http_status e = 422"
    by simp
next
  assume ok: "get_api_cars R db f l = Inr r"
  then obtain limit where lim: "query_limit l = Inr limit"
    and run: "list_cars R db f limit = Inr r"
    by (rule get_api_cars_Inr)
  from query_limit_Inr [OF lim]
  have one: "1 \<le> limit" and le: "limit \<le> (case l of None \<Rightarrow> 50 | Some n \<Rightarrow> n)"
    by simp_all
  have "\<exists>xs. r = items_response xs \<and> int (length xs) \<le> limit"
  proof (cases db)
    case None
    with run have "r = items_response (map PDict (slice_to limit demo_cars))"
      by (simp add: list_cars_def)
    moreover have "int (length (map PDict (slice_to limit demo_cars))) \<le> limit"
      using length_slice_to [OF one, of demo_cars] by simp
    ultimately show ?thesis by blast
  next
    case (Some d)
    define cursor where
      "cursor = cursor_limit limit (apply_sort (sort_by f) (find_docs (coll d ''car'') (cars_query f)))"
    from run Some obtain items where
      items: "serialize_docs R cursor = Inr items" and r: "r = items_response (map json_of items)"
      by (auto simp: list_cars_store cursor_def split: sum.splits)
    have "int (length cursor) \<le> limit"
      unfolding cursor_def using one by (rule length_cursor_limit)
    with serialize_docs_length [OF items] have "int (length (map json_of items)) \<le> limit"
      by simp
    with r show ?thesis by blast
  qed
  then obtain xs where r: "r = items_response xs" and n: "int (length xs) \<le> limit"
    by blast
  from n le have "int (length xs) \<le> (case l of None \<Rightarrow> 50 | Some n \<Rightarrow> n)"
    by simp
  then show "count_of r = Some (int (length (items_of r)))"
    and "int (length (items_of r)) \<le> (case l of None \<Rightarrow> 50 | Some n \<Rightarrow> n)"
    by (simp_all add: r items_of_response count_of_response)
qed

theorem limit_bounds_witness:
  "get_api_cars no_render None no_filters (Some 1)
     = Inr (items_response [PDict ((''id'', PStr ''demo-1'') # tesla)]) \<and>
   count_of (items_response [PDict ((''id'', PStr ''demo-1'') # tesla)]) = Some 1 \<and>
   (\<exists>e. get_api_cars no_render None no_filters (Some 201) = Inl e \<and> http_status e = 422)"
proof -
  have run: "get_api_cars no_render None no_filters (Some 1)
     = Inr (items_response [PDict ((''id'', PStr ''demo-1'') # tesla)])"
    by (simp add: get_api_cars_def valid_filters_def query_limit_def list_cars_def slice_to_def
          demo_cars_def no_filters_def)
  from limit_bounds [of no_render None no_filters "Some 1"
                        "items_response [PDict ((''id'', PStr ''demo-1'') # tesla)]" 1] run
  have a: "count_of (items_response [PDict ((''id'', PStr ''demo-1'') # tesla)]) = Some 1"
    by (simp add: items_of_response)
  from limit_bounds [of no_render None no_filters "Some 201" PNone 201]
  have b: "\<exists>e. get_api_cars no_render None no_filters (Some 201) = Inl e \<and> http_status e = 422"
    by simp
  from run a b show ?thesis by simp
qed

text \<open>
  Claim C5 as stated fails in the status of the rejection: a \<open>limit\<close> outside the declared
  bounds is refused with 422, not 400.
\<close>

theorem limit_rejected_with_422:
  "get_api_cars no_render (Some sample_store) no_filters (Some 0) = Inl RequestValidationError \<and>
   get_api_cars no_render (Some sample_store) no_filters (Some 201) = Inl RequestValidationError \<and>
   http_status RequestValidationError = 422"
  by (simp add: get_api_cars_def valid_filters_def query_limit_def no_filters_def)

section \<open>Properties of the lookup, the booking and the seeding\<close>

lemma matches_id: "matches c [(''_id'', POid oid)] = (map_of c ''_id'' = Some (POid oid))"
proof (cases "map_of c ''_id''")
  case None
  then show ?thesis by (simp add: matches_def cond_holds_def)
next
  case (Some v)
  then show ?thesis by (cases v) (simp_all add: matches_def cond_holds_def val_eq_def)
qed


lemma be_bytes_numeral:
  "be_bytes (numeral k) n = be_bytes (pred_numeral k) (n div 256) @ [n mod 256]"
  by (simp add: numeral_eq_Suc [of k])

lemma matches_all: "matches c [] = True"
  by (simp add: matches_def)

lemma count_documents_all: "count_documents cs [] = length cs"
  by (simp add: count_documents_def find_docs_def matches_all)

lemma coll_insert_one:
  "coll (snd (insert_one name x d)) name' =
     (if name' = name
      then coll d name @ [AList.update ''_id'' (POid (fresh_ObjectId (next_oid d))) x]
      else coll d name')"
  by (simp add: insert_one_def coll_def Let_def update_conv')

lemma next_oid_insert_one: "next_oid (snd (insert_one name x d)) = Suc (next_oid d)"
  by (simp add: insert_one_def Let_def)

lemma coll_insert_three:
  "coll (insert_many name [a, b, c] d) name' =
     (if name' = name
      then coll d name @
             [AList.update ''_id'' (POid (fresh_ObjectId (next_oid d))) a,
              AList.update ''_id'' (POid (fresh_ObjectId (Suc (next_oid d)))) b,
              AList.update ''_id'' (POid (fresh_ObjectId (Suc (Suc (next_oid d))))) c]
      else coll d name')"
  by (simp add: coll_insert_one next_oid_insert_one)


lemma sample_ids:
  "ObjectId_of_str ''not-an-id'' = Inl InvalidId"
  "ObjectId_of_str ''000000000000000000000001''
     = Inr (ObjectId [0, 0, 0, 0, 0, 0, 0, 0, 0, 0, 0, 1])"
  "ObjectId_of_str ''000000000000000000000002''
     = Inr (ObjectId [0, 0, 0, 0, 0, 0, 0, 0, 0, 0, 0, 2])"
  "ObjectId_of_str ''000000000000000000000009''
     = Inr (ObjectId [0, 0, 0, 0, 0, 0, 0, 0, 0, 0, 0, 9])"
  by (simp_all add: ObjectId_of_str_def is_space_def hex_value_def)






text \<open>
  Claim C8 at a store that holds the car of the request. The answer echoes the submitted
  fields and carries the assigned \<open>id\<close>, and it has no \<open>status\<close> field: the payload has
  none and nothing on this path sets one. The mocked answer of the same handler, given
  without a store, carries \<open>status = "pending"\<close>.
\<close>

theorem create_booking_has_no_status:
  "fst (create_booking no_render (Some sample_store) (sample_booking ''000000000000000000000001''))
     = Inr (PDict [(''user_id'', PStr ''u1''), (''car_id'', PStr ''000000000000000000000001''),
                   (''pickup_location'', PStr ''Downtown''),
                   (''dropoff_location'', PStr ''Airport''),
                   (''start_date'', PStr ''2025-12-01''), (''end_date'', PStr ''2025-12-05''),
                   (''total_price'', PFloat 356), (''notes'', PNone),
                   (''id'', PStr ''000000000000000000000002'')]) \<and>
   map_of [(''user_id'', PStr ''u1''), (''car_id'', PStr ''000000000000000000000001''),
           (''pickup_location'', PStr ''Downtown''), (''dropoff_location'', PStr ''Airport''),
           (''start_date'', PStr ''2025-12-01''), (''end_date'', PStr ''2025-12-05''),
           (''total_price'', PFloat 356), (''notes'', PNone),
           (''id'', PStr ''000000000000000000000002'')] ''status'' = None \<and>
   (\<exists>out. fst (create_booking no_render None (sample_booking ''000000000000000000000001''))
             = Inr (PDict out) \<and>
          map_of out ''status'' = Some (PStr ''pending''))"
proof -
  have oid: "fresh_ObjectId 2 = ObjectId [0, 0, 0, 0, 0, 0, 0, 0, 0, 0, 0, 2]"
    by (simp add: fresh_ObjectId_def be_bytes_numeral)
  have hex: "hexlify [0, 0, 0, 0, 0, 0, 0, 0, 0, 0, 0, 2] = ''000000000000000000000002''"
    by (simp add: hexlify_def hex_digit_def)
  have car: "find_one (coll sample_store ''car'')
               [(''_id'', POid (ObjectId [0, 0, 0, 0, 0, 0, 0, 0, 0, 0, 0, 1]))] = Some sample_car"
    by (simp add: find_one_def find_docs_def matches_id coll_def sample_store_def sample_car_def)
  have ne: "sample_car \<noteq> []"
    by (simp add: sample_car_def)
  have ins: "create_document ''booking''
               (model_dump (sample_booking ''000000000000000000000001'')) sample_store
             = (''000000000000000000000002'',
                snd (insert_one ''booking''
                       (model_dump (sample_booking ''000000000000000000000001'')) sample_store))"
    by (simp add: create_document_def insert_one_def Let_def sample_store_def oid hex)
  have stored: "coll (snd (insert_one ''booking''
                       (model_dump (sample_booking ''000000000000000000000001'')) sample_store))
                  ''booking''
                = [model_dump (sample_booking ''000000000000000000000001'') @
                   [(''_id'', POid (ObjectId [0, 0, 0, 0, 0, 0, 0, 0, 0, 0, 0, 2]))]]"
    by (simp only: coll_insert_one) (simp add: coll_def sample_store_def oid model_dump_def)
  have reread: "find_one [model_dump (sample_booking ''000000000000000000000001'') @
                        [(''_id'', POid (ObjectId [0, 0, 0, 0, 0, 0, 0, 0, 0, 0, 0, 2]))]]
                [(''_id'', POid (ObjectId [0, 0, 0, 0, 0, 0, 0, 0, 0, 0, 0, 2]))]
              = Some (model_dump (sample_booking ''000000000000000000000001'') @
                        [(''_id'', POid (ObjectId [0, 0, 0, 0, 0, 0, 0, 0, 0, 0, 0, 2]))])"
    by (simp add: find_one_def find_docs_def matches_id model_dump_def)
  have ser: "serialize_doc no_render
               (Some (model_dump (sample_booking ''000000000000000000000001'') @
                        [(''_id'', POid (ObjectId [0, 0, 0, 0, 0, 0, 0, 0, 0, 0, 0, 2]))]))
             = Inr (Some [(''user_id'', PStr ''u1''), (''car_id'', PStr ''000000000000000000000001''),
                   (''pickup_location'', PStr ''Downtown''),
                   (''dropoff_location'', PStr ''Airport''),
                   (''start_date'', PStr ''2025-12-01''), (''end_date'', PStr ''2025-12-05''),
                   (''total_price'', PFloat 356), (''notes'', PNone),
                   (''id'', PStr ''000000000000000000000002'')])"
    by (simp add: serialize_doc_def stringify_step_def py_str_def hex model_dump_def
          sample_booking_def)
  have cid: "car_id (sample_booking ''000000000000000000000001'') = ''000000000000000000000001''"
    by (simp add: sample_booking_def)
  have store: "fst (create_booking no_render (Some sample_store)
                      (sample_booking ''000000000000000000000001''))
     = Inr (PDict [(''user_id'', PStr ''u1''), (''car_id'', PStr ''000000000000000000000001''),
                   (''pickup_location'', PStr ''Downtown''),
                   (''dropoff_location'', PStr ''Airport''),
                   (''start_date'', PStr ''2025-12-01''), (''end_date'', PStr ''2025-12-05''),
                   (''total_price'', PFloat 356), (''notes'', PNone),
                   (''id'', PStr ''000000000000000000000002'')])"
    by (simp only: create_booking_def cid sample_ids car ne ins stored reread ser option.case
          sum.case prod.case if_False json_of.simps fst_conv)
  have mock: "\<exists>out. fst (create_booking no_render None (sample_booking ''000000000000000000000001''))
             = Inr (PDict out) \<and>
          map_of out ''status'' = Some (PStr ''pending'')"
    by (simp add: create_booking_def dict_merge_def model_dump_def sample_booking_def)
  from store mock show ?thesis by simp
qed

text \<open>
  Claim C9, as amended. With a store configured, seeding is idempotent: when a car record
  exists it reports that cars already exist and leaves the store as it was; when none
  exists it stores exactly the three demo records, each under a fresh \<open>_id\<close>, and reports
  three insertions; a second call after either of them changes nothing. Without a store
  it reports \<open>no-db\<close> and stores nothing.
\<close>

theorem seed_demo_cars_idempotent:
  "(coll d ''car'' \<noteq> [] \<longrightarrow>
      seed_demo_cars (Some d)
        = (PDict [(''status'', PStr ''ok''), (''message'', PStr ''Cars already exist'')], Some d)) \<and>
   (coll d ''car'' = [] \<longrightarrow>
      (\<exists>d'. seed_demo_cars (Some d)
               = (PDict [(''status'', PStr ''ok''), (''inserted'', PInt 3)], Some d') \<and>
             coll d' ''car''
               = [AList.update ''_id'' (POid (fresh_ObjectId (next_oid d))) tesla,
                  AList.update ''_id'' (POid (fresh_ObjectId (Suc (next_oid d)))) bmw,
                  AList.update ''_id'' (POid (fresh_ObjectId (Suc (Suc (next_oid d))))) corolla] \<and>
             coll d' ''booking'' = coll d ''booking'')) \<and>
   fst (seed_demo_cars (snd (seed_demo_cars (Some d))))
     = PDict [(''status'', PStr ''ok''), (''message'', PStr ''Cars already exist'')] \<and>
   snd (seed_demo_cars (snd (seed_demo_cars (Some d)))) = snd (seed_demo_cars (Some d)) \<and>
   car_count (snd (seed_demo_cars (snd (seed_demo_cars (Some d)))))
     = car_count (snd (seed_demo_cars (Some d))) \<and>
   seed_demo_cars None
     = (PDict [(''status'', PStr ''no-db''),
               (''message'', PStr ''Database not configured in this environment'')], None)"
proof -
  have full: "seed_demo_cars (Some x)
        = (PDict [(''status'', PStr ''ok''), (''message'', PStr ''Cars already exist'')], Some x)"
    if "coll x ''car'' \<noteq> []" for x
    using that by (simp add: seed_demo_cars_def count_documents_all)
  have empty: "seed_demo_cars (Some d)
        = (PDict [(''status'', PStr ''ok''), (''inserted'', PInt 3)],
           Some (insert_many ''car'' [tesla, bmw, corolla] d))"
    if "coll d ''car'' = []"
    using that by (simp add: seed_demo_cars_def count_documents_all Let_def)
  have cars: "coll (insert_many ''car'' [tesla, bmw, corolla] d) ''car''
               = [AList.update ''_id'' (POid (fresh_ObjectId (next_oid d))) tesla,
                  AList.update ''_id'' (POid (fresh_ObjectId (Suc (next_oid d)))) bmw,
                  AList.update ''_id'' (POid (fresh_ObjectId (Suc (Suc (next_oid d))))) corolla]"
    if "coll d ''car'' = []"
    by (simp only: coll_insert_three that append_Nil) simp
  have others: "coll (insert_many ''car'' [tesla, bmw, corolla] d) ''booking'' = coll d ''booking''"
    by (simp only: coll_insert_three) simp
  have again: "seed_demo_cars (snd (seed_demo_cars (Some d)))
        = (PDict [(''status'', PStr ''ok''), (''message'', PStr ''Cars already exist'')],
           snd (seed_demo_cars (Some d)))"
  proof (cases "coll d ''car'' = []")
    case True
    have "coll (insert_many ''car'' [tesla, bmw, corolla] d) ''car'' \<noteq> []"
      using cars [OF True] by simp
    from full [OF this] show ?thesis by (simp add: empty [OF True])
  next
    case False
    from full [OF False] show ?thesis by simp
  qed
  have none: "seed_demo_cars None
     = (PDict [(''status'', PStr ''no-db''),
               (''message'', PStr ''Database not configured in this environment'')], None)"
    by (simp add: seed_demo_cars_def)
  show ?thesis
  proof (intro conjI impI)
    assume "coll d ''car'' \<noteq> []"
    then show "seed_demo_cars (Some d)
        = (PDict [(''status'', PStr ''ok''), (''message'', PStr ''Cars already exist'')], Some d)"
      by (rule full)
  next
    assume e: "coll d ''car'' = []"
    show "\<exists>d'. seed_demo_cars (Some d)
               = (PDict [(''status'', PStr ''ok''), (''inserted'', PInt 3)], Some d') \<and>
             coll d' ''car''
               = [AList.update ''_id'' (POid (fresh_ObjectId (next_oid d))) tesla,
                  AList.update ''_id'' (POid (fresh_ObjectId (Suc (next_oid d)))) bmw,
                  AList.update ''_id'' (POid (fresh_ObjectId (Suc (Suc (next_oid d))))) corolla] \<and>
             coll d' ''booking'' = coll d ''booking''"
      using empty [OF e] cars [OF e] others by blast
  next
    show "seed_demo_cars None
     = (PDict [(''status'', PStr ''no-db''),
               (''message'', PStr ''Database not configured in this environment'')], None)"
      by (rule none)
  qed (simp_all add: again)
qed

theorem seed_demo_cars_idempotent_witness:
  "coll empty_store ''car'' = [] \<and>
   (\<exists>d'. seed_demo_cars (Some empty_store)
            = (PDict [(''status'', PStr ''ok''), (''inserted'', PInt 3)], Some d') \<and>
          length (coll d' ''car'') = 3) \<and>
   coll sample_store ''car'' \<noteq> [] \<and>
   seed_demo_cars (Some sample_store)
     = (PDict [(''status'', PStr ''ok''), (''message'', PStr ''Cars already exist'')],
        Some sample_store)"
proof -
  have e: "coll empty_store ''car'' = []"
    by (simp add: coll_def empty_store_def)
  have s: "coll sample_store ''car'' \<noteq> []"
    by (simp add: coll_def sample_store_def)
  from seed_demo_cars_idempotent [of empty_store] e
  obtain d' where
    "seed_demo_cars (Some empty_store)
       = (PDict [(''status'', PStr ''ok''), (''inserted'', PInt 3)], Some d')"
    "coll d' ''car''
       = [AList.update ''_id'' (POid (fresh_ObjectId (next_oid empty_store))) tesla,
          AList.update ''_id'' (POid (fresh_ObjectId (Suc (next_oid empty_store)))) bmw,
          AList.update ''_id'' (POid (fresh_ObjectId (Suc (Suc (next_oid empty_store))))) corolla]"
    by blast
  then have a: "\<exists>d'. seed_demo_cars (Some empty_store)
            = (PDict [(''status'', PStr ''ok''), (''inserted'', PInt 3)], Some d') \<and>
          length (coll d' ''car'') = 3"
    by simp
  from seed_demo_cars_idempotent [of sample_store] s
  have b: "seed_demo_cars (Some sample_store)
     = (PDict [(''status'', PStr ''ok''), (''message'', PStr ''Cars already exist'')],
        Some sample_store)"
    by blast
  from e a s b show ?thesis by blast
qed

text \<open>
  Claim C9 as stated fails where no store is configured: no car record exists, and the
  call neither stores the three demo records nor reports that cars exist.
\<close>

theorem seed_demo_cars_without_store:
  "car_count None = 0 \<and>
   seed_demo_cars None
     = (PDict [(''status'', PStr ''no-db''),
               (''message'', PStr ''Database not configured in this environment'')], None) \<and>
   car_count (snd (seed_demo_cars None)) = 0"
  by (simp add: seed_demo_cars_def car_count_def)

end
